theory Spec2Isabelle
  imports Complex_Main
begin

section \<open>JavaScript values\<close>

text \<open>
  The server of \<^verbatim>\<open>src/app.js\<close> receives its protocol events through
  \<^verbatim>\<open>JSON.parse\<close> and never inspects their type: every check is a truthiness test and
  every reply is computed with the untyped operator \<^verbatim>\<open>+\<close>. The values are therefore
  modelled as JavaScript has them. Numbers are restricted to integers (sequence numbers,
  chunk indices and millisecond clocks are integers; on them the arithmetic of doubles is
  exact below \<open>2 ^ 53\<close>). An object is the association list of its own properties, the first
  binding of a key being the property's value.
\<close>

datatype jsv =
    JUndef
  | JNaN
  | JNull
  | JBool bool
  | JNum int
  | JStr string
  | JArr "jsv list"
  | JObj "(string \<times> jsv) list"

text \<open>\<^verbatim>\<open>!v\<close> is false exactly on the truthy values.\<close>

fun truthy :: "jsv \<Rightarrow> bool" where
  "truthy JUndef = False"
| "truthy JNaN = False"
| "truthy JNull = False"
| "truthy (JBool b) = b"
| "truthy (JNum n) = (n \<noteq> 0)"
| "truthy (JStr s) = (s \<noteq> [])"
| "truthy (JArr xs) = True"
| "truthy (JObj kvs) = True"

text \<open>
  Property read \<^verbatim>\<open>v.k\<close>, for the property names the source reads (\<^verbatim>\<open>event\<close>,
  \<^verbatim>\<open>sequence_number\<close>, \<^verbatim>\<open>start\<close>, \<^verbatim>\<open>payload\<close>, \<^verbatim>\<open>length\<close> and so on; none is an
  index or a property that a prototype provides, \<^verbatim>\<open>length\<close> of strings and arrays
  apart). On a primitive, an array or an object without the key the result is
  \<^verbatim>\<open>undefined\<close>. The source reads a property of a possibly missing value only behind a
  truthiness test of that value (\<^verbatim>\<open>!message.start || !message.start.stream_sid\<close>), so
  the reads of \<^verbatim>\<open>undefined\<close> and \<^verbatim>\<open>null\<close>, which would throw, are given the value
  \<^verbatim>\<open>undefined\<close> here; the one unguarded read, \<^verbatim>\<open>message.event\<close> of the parsed frame
  itself, is modelled as a throw in \<open>handleWebSocketEvent\<close>.
\<close>

fun getProp :: "jsv \<Rightarrow> string \<Rightarrow> jsv" where
  "getProp (JObj kvs) k = (case map_of kvs k of None \<Rightarrow> JUndef | Some v \<Rightarrow> v)"
| "getProp (JStr s) k = (if k = ''length'' then JNum (int (length s)) else JUndef)"
| "getProp (JArr xs) k = (if k = ''length'' then JNum (int (length xs)) else JUndef)"
| "getProp v k = JUndef"

text \<open>Decimal notation of a number, as \<^verbatim>\<open>String(n)\<close> gives it for an integer.\<close>

fun show_nat :: "nat \<Rightarrow> string" where
  "show_nat n =
     (if n < 10 then [''0123456789'' ! n]
      else show_nat (n div 10) @ [''0123456789'' ! (n mod 10)])"

declare show_nat.simps [simp del]

definition show_int :: "int \<Rightarrow> string" where
  "show_int i = (if i < 0 then CHR ''-'' # show_nat (nat (- i)) else show_nat (nat i))"

fun join_with :: "string \<Rightarrow> string list \<Rightarrow> string" where
  "join_with sep [] = []"
| "join_with sep [x] = x"
| "join_with sep (x # y # ys) = x @ sep @ join_with sep (y # ys)"

text \<open>
  \<^verbatim>\<open>String(v)\<close>, used by template literals and by \<^verbatim>\<open>+\<close> on a non-number: an array is
  the comma-joined list of its elements, with \<^verbatim>\<open>null\<close> and \<^verbatim>\<open>undefined\<close> elements
  empty; a plain object is \<^verbatim>\<open>[object Object]\<close>.
\<close>

fun js_toString :: "jsv \<Rightarrow> string" where
  "js_toString JUndef = ''undefined''"
| "js_toString JNaN = ''NaN''"
| "js_toString JNull = ''null''"
| "js_toString (JBool b) = (if b then ''true'' else ''false'')"
| "js_toString (JNum n) = show_int n"
| "js_toString (JStr s) = s"
| "js_toString (JArr xs) =
     join_with '','' (map (\<lambda>x. if x = JNull \<or> x = JUndef then [] else js_toString x) xs)"
| "js_toString (JObj kvs) = ''[object Object]''"

text \<open>
  \<^verbatim>\<open>v + k\<close> for a number literal \<open>k\<close>: numeric addition when \<open>v\<close> converts to a number
  (\<^verbatim>\<open>undefined\<close> gives \<^verbatim>\<open>NaN\<close>, \<^verbatim>\<open>null\<close> and \<^verbatim>\<open>false\<close> count 0, \<^verbatim>\<open>true\<close> counts
  1), string concatenation when \<open>v\<close> is a string, an array or an object.
\<close>

fun js_plus :: "jsv \<Rightarrow> int \<Rightarrow> jsv" where
  "js_plus JUndef k = JNaN"
| "js_plus JNaN k = JNaN"
| "js_plus JNull k = JNum k"
| "js_plus (JBool b) k = JNum ((if b then 1 else 0) + k)"
| "js_plus (JNum n) k = JNum (n + k)"
| "js_plus (JStr s) k = JStr (s @ show_int k)"
| "js_plus (JArr xs) k = JStr (js_toString (JArr xs) @ show_int k)"
| "js_plus (JObj kvs) k = JStr (js_toString (JObj kvs) @ show_int k)"

text \<open>\<^verbatim>\<open>a || b\<close>.\<close>

definition js_or :: "jsv \<Rightarrow> jsv \<Rightarrow> jsv" where
  "js_or a b = (if truthy a then a else b)"

text \<open>
  Object spread \<^verbatim>\<open>{ ...v }\<close>: the own enumerable properties of \<open>v\<close>; the characters of
  a string and the elements of an array under their indices; nothing for the other
  primitives.
\<close>

definition indexed :: "'a list \<Rightarrow> (string \<times> 'a) list" where
  "indexed xs = zip (map show_nat [0 ..< length xs]) xs"

fun spread :: "jsv \<Rightarrow> jsv" where
  "spread (JObj kvs) = JObj kvs"
| "spread (JArr xs) = JObj (indexed xs)"
| "spread (JStr s) = JObj (indexed (map (\<lambda>c. JStr [c]) s))"
| "spread v = JObj []"

text \<open>
  \<^verbatim>\<open>Buffer.from(v, "base64")\<close> of Node.js is called for its exceptions only (the decoded
  bytes are dropped). Following \<^verbatim>\<open>lib/buffer.js\<close>: a string is always decoded
  (characters outside the alphabet are skipped); an array is copied; an object is accepted
  when its \<^verbatim>\<open>valueOf\<close> property is the empty string, when it has a \<^verbatim>\<open>length\<close> (the
  allocation limit on an absurd length aside) or when it has the shape
  \<^verbatim>\<open>{type: "Buffer", data: [...]}\<close>, and calling a truthy own \<^verbatim>\<open>valueOf\<close> property of
  a parsed object throws; every other value (a number, a boolean) is refused with a
  \<^verbatim>\<open>TypeError\<close>. \<open>Buffer_from_throws v\<close> says that the call throws.
\<close>

fun is_array :: "jsv \<Rightarrow> bool" where
  "is_array (JArr xs) = True"
| "is_array v = False"

fun Buffer_from_throws :: "jsv \<Rightarrow> bool" where
  "Buffer_from_throws (JStr s) = False"
| "Buffer_from_throws (JArr xs) = False"
| "Buffer_from_throws (JObj kvs) =
     (if truthy (getProp (JObj kvs) ''valueOf'') then True
      else if getProp (JObj kvs) ''valueOf'' = JStr [] then False
      else if map_of kvs ''length'' \<noteq> None then False
      else \<not> (getProp (JObj kvs) ''type'' = JStr ''Buffer'' \<and> is_array (getProp (JObj kvs) ''data'')))"
| "Buffer_from_throws v = True"

section \<open>The stores of the server\<close>

text \<open>
  A call record, as \<^verbatim>\<open>GET /sampark\<close> creates it and the handlers extend it. A timestamp
  is the millisecond clock behind \<^verbatim>\<open>new Date().toISOString()\<close> (the string and its
  re-parse by \<^verbatim>\<open>new Date(s)\<close> carry exactly the milliseconds); a property the record
  does not have yet is \<open>None\<close>, or \<open>JUndef\<close> where the handlers store a value of the
  message. The fields \<^verbatim>\<open>from\<close> and \<^verbatim>\<open>to\<close> are \<open>from_addr\<close> and \<open>to_addr\<close>.
\<close>

record event_entry =
  ev_event :: jsv
  ev_sequence_number :: jsv
  ev_stream_sid :: jsv
  ev_timestamp :: int
  ev_payload :: jsv

record audio_chunk =
  chunk :: jsv
  timestamp :: jsv
  payloadSize :: jsv
  receivedAt :: int

record callData =
  callSid :: jsv
  from_addr :: jsv
  to_addr :: jsv
  startTime :: "int option"
  status :: string
  events :: "event_entry list"
  audioChunks :: "audio_chunk list"
  wsConnectedTime :: "int option"
  endTime :: "int option"
  duration :: "int option"
  mediaFormat :: jsv
  accountSid :: jsv
  stopReason :: jsv
  transferReason :: jsv

text \<open>
  The three global maps. A socket is named by a number. What a handler does to its socket
  is returned as a list of effects, in order: \<open>Send v\<close> is
  \<^verbatim>\<open>ws.send(JSON.stringify(v))\<close>, \<open>Close c r\<close> is \<^verbatim>\<open>ws.close(c, r)\<close> and
  \<open>CloseAfter d c r\<close> is \<^verbatim>\<open>setTimeout(() => ws.close(c, r), d)\<close>.
\<close>

record server =
  callStorage :: "string \<rightharpoonup> callData"
  activeConnections :: "string \<rightharpoonup> nat"
  tokenStorage :: "string \<rightharpoonup> string"

datatype effect =
    Send jsv
  | Close nat string
  | CloseAfter nat nat string

datatype js_error = SyntaxError | TypeError | ReferenceError

definition error_envelope :: "jsv \<Rightarrow> string \<Rightarrow> string \<Rightarrow> jsv" where
  "error_envelope message sid msg =
     JObj [(''event'', JStr ''error''),
           (''sequence_number'', js_plus (getProp message ''sequence_number'') 1),
           (''stream_sid'', JStr sid),
           (''error'', JStr msg)]"

section \<open>The HTTP setup call\<close>

text \<open>
  \<^verbatim>\<open>GET /sampark\<close> with the query parameters \<^verbatim>\<open>CallSid\<close>, \<^verbatim>\<open>From\<close> and \<^verbatim>\<open>To\<close>
  (\<open>None\<close> when absent), the 32 hexadecimal digits \<open>token\<close> drawn by
  \<^verbatim>\<open>crypto.randomBytes(16)\<close>, and the host and port of the environment (their defaults
  applied). A query parameter is a string; the empty string is falsy. The reply is the
  HTTP status with its JSON body. A repeated call for a \<^verbatim>\<open>CallSid\<close> replaces its record
  and issues a further token.
\<close>

definition present :: "string option \<Rightarrow> bool" where
  "present q = (case q of None \<Rightarrow> False | Some s \<Rightarrow> s \<noteq> [])"

definition generateWebSocketEndpoint ::
  "string \<Rightarrow> string \<Rightarrow> string \<Rightarrow> string \<Rightarrow> server \<Rightarrow> server \<times> string" where
  "generateWebSocketEndpoint host port token sid st =
     (st\<lparr>tokenStorage := (tokenStorage st)(token \<mapsto> sid)\<rparr>,
      ''wss://'' @ host @ '':'' @ port @ ''/connection?token='' @ token @ ''&callSid='' @ sid)"

definition sampark ::
  "string \<Rightarrow> string \<Rightarrow> string \<Rightarrow> string option \<Rightarrow> string option \<Rightarrow> string option \<Rightarrow> int
     \<Rightarrow> server \<Rightarrow> server \<times> nat \<times> jsv" where
  "sampark host port token CallSid From To now st =
     (if \<not> present CallSid \<or> \<not> present From \<or> \<not> present To
      then (st, 400, JObj [(''error'', JStr ''Missing required parameters: CallSid, From, To'')])
      else
        let sid = the CallSid;
            cd = \<lparr>callSid = JStr sid, from_addr = JStr (the From), to_addr = JStr (the To),
                  startTime = Some now, status = ''initiated'', events = [], audioChunks = [],
                  wsConnectedTime = None, endTime = None, duration = None,
                  mediaFormat = JUndef, accountSid = JUndef, stopReason = JUndef,
                  transferReason = JUndef\<rparr>;
            st1 = st\<lparr>callStorage := (callStorage st)(sid \<mapsto> cd)\<rparr>;
            (st2, wsEndpoint) = generateWebSocketEndpoint host port token sid st1
        in (st2, 200, JObj [(''websocket_url'', JStr wsEndpoint)]))"

section \<open>Admission of a socket\<close>

text \<open>
  \<^verbatim>\<open>wss.on("connection")\<close> for the socket \<open>ws\<close> with the query parameters
  \<^verbatim>\<open>callSid\<close> and \<^verbatim>\<open>token\<close> of its URL. The only test is that the token is stored
  for this call; an admitted socket deletes the token and is written over whatever
  \<^verbatim>\<open>activeConnections\<close> holds for the call.
\<close>

definition connection ::
  "nat \<Rightarrow> string option \<Rightarrow> string option \<Rightarrow> int \<Rightarrow> server \<Rightarrow> server \<times> effect list" where
  "connection ws callSidQ tokenQ now st =
     (if \<not> present callSidQ \<or> \<not> present tokenQ \<or> tokenStorage st (the tokenQ) \<noteq> callSidQ
      then (st, [Close 1008 ''Invalid callSid or token''])
      else
        let sid = the callSidQ;
            st1 = st\<lparr>tokenStorage := (tokenStorage st)((the tokenQ) := None)\<rparr>;
            st2 = st1\<lparr>activeConnections := (activeConnections st1)(sid \<mapsto> ws)\<rparr>
        in (case callStorage st2 sid of
              None \<Rightarrow> (st2, [])
            | Some cd \<Rightarrow>
                (st2\<lparr>callStorage := (callStorage st2)
                        (sid \<mapsto> cd\<lparr>status := ''connected'', wsConnectedTime := Some now\<rparr>)\<rparr>,
                 [])))"

section \<open>The event handlers\<close>

text \<open>
  Each handler looks the record up again under the call id, as the source does, and does
  nothing when there is none. \<open>update_call\<close> writes a changed record back: the source
  mutates the one object that \<^verbatim>\<open>callStorage\<close> holds.
\<close>

definition update_call :: "string \<Rightarrow> callData \<Rightarrow> server \<Rightarrow> server" where
  "update_call sid cd st = st\<lparr>callStorage := (callStorage st)(sid \<mapsto> cd)\<rparr>"

definition start_invalid :: "jsv \<Rightarrow> bool" where
  "start_invalid message =
     (let start = getProp message ''start''; media_format = getProp start ''media_format''
      in \<not> truthy start \<or>
         \<not> truthy (getProp start ''stream_sid'') \<or>
         \<not> truthy (getProp start ''call_sid'') \<or>
         \<not> truthy (getProp start ''account_sid'') \<or>
         \<not> truthy (getProp start ''from'') \<or>
         \<not> truthy (getProp start ''to'') \<or>
         \<not> truthy media_format \<or>
         \<not> truthy (getProp media_format ''encoding'') \<or>
         \<not> truthy (getProp media_format ''sample_rate'') \<or>
         \<not> truthy (getProp media_format ''bit_rate''))"

text \<open>
  The statement \<^verbatim>\<open>upperCase: message.start.call_sid;\<close> of the source is a labelled
  expression statement and stores nothing, so the start handler leaves \<^verbatim>\<open>callSid\<close>.
\<close>

definition handleStartEvent :: "string \<Rightarrow> jsv \<Rightarrow> server \<Rightarrow> server \<times> effect list" where
  "handleStartEvent sid message st =
     (case callStorage st sid of
        None \<Rightarrow> (st, [])
      | Some cd \<Rightarrow>
          if start_invalid message
          then (st, [Send (error_envelope message sid ''Invalid start payload'')])
          else
            let start = getProp message ''start'' in
            (update_call sid
               (cd\<lparr>status := ''started'',
                   mediaFormat := getProp start ''media_format'',
                   accountSid := getProp start ''account_sid'',
                   from_addr := getProp start ''from'',
                   to_addr := getProp start ''to''\<rparr>) st,
             [Send (JObj
               [(''event'', JStr ''start''),
                (''sequence_number'', js_plus (getProp message ''sequence_number'') 1),
                (''stream_sid'', getProp message ''stream_sid''),
                (''start'', JObj
                  [(''stream_sid'', getProp start ''stream_sid''),
                   (''call_sid'', getProp start ''call_sid''),
                   (''account_sid'', getProp start ''account_sid''),
                   (''from'', getProp start ''from''),
                   (''to'', getProp start ''to''),
                   (''custom_parameters'', js_or (getProp start ''custom_parameters'') (JObj [])),
                   (''media_format'', getProp start ''media_format'')])])]))"

definition media_invalid :: "jsv \<Rightarrow> bool" where
  "media_invalid message =
     (let media = getProp message ''media''
      in \<not> truthy media \<or>
         \<not> truthy (getProp media ''payload'') \<or>
         \<not> truthy (getProp media ''chunk'') \<or>
         \<not> truthy (getProp media ''timestamp''))"

text \<open>
  The chunk is recorded before the \<^verbatim>\<open>try\<close> block; inside it \<^verbatim>\<open>Buffer.from\<close> is the
  only call that can throw, and the \<^verbatim>\<open>catch\<close> block answers with an error envelope.
\<close>

definition handleMediaEvent :: "string \<Rightarrow> jsv \<Rightarrow> int \<Rightarrow> server \<Rightarrow> server \<times> effect list" where
  "handleMediaEvent sid message now st =
     (case callStorage st sid of
        None \<Rightarrow> (st, [])
      | Some cd \<Rightarrow>
          if media_invalid message
          then (st, [Send (error_envelope message sid ''Invalid media payload'')])
          else
            let media = getProp message ''media'';
                audioChunk = \<lparr>chunk = getProp media ''chunk'',
                              timestamp = getProp media ''timestamp'',
                              payloadSize = getProp (getProp media ''payload'') ''length'',
                              receivedAt = now\<rparr>;
                st1 = update_call sid (cd\<lparr>audioChunks := audioChunks cd @ [audioChunk]\<rparr>) st
            in if Buffer_from_throws (getProp media ''payload'')
               then (st1, [Send (error_envelope message sid ''Failed to process audio chunk'')])
               else
                 (st1,
                  [Send (JObj
                    [(''event'', JStr ''media''),
                     (''sequence_number'', js_plus (getProp message ''sequence_number'') 1000),
                     (''stream_sid'', JStr sid),
                     (''media'', JObj
                       [(''chunk'', getProp media ''chunk''),
                        (''timestamp'', JStr (show_int now)),
                        (''payload'', getProp media ''payload'')])])]))"

definition stop_invalid :: "jsv \<Rightarrow> bool" where
  "stop_invalid message =
     (let stop = getProp message ''stop''
      in \<not> truthy stop \<or>
         \<not> truthy (getProp stop ''call_sid'') \<or>
         \<not> truthy (getProp stop ''account_sid'') \<or>
         \<not> truthy (getProp stop ''reason''))"

definition handleStopEvent :: "string \<Rightarrow> jsv \<Rightarrow> int \<Rightarrow> server \<Rightarrow> server \<times> effect list" where
  "handleStopEvent sid message now st =
     (case callStorage st sid of
        None \<Rightarrow> (st, [])
      | Some cd \<Rightarrow>
          if stop_invalid message
          then (st, [Send (error_envelope message sid ''Invalid stop payload'')])
          else
            let stop = getProp message ''stop'' in
            (update_call sid
               (cd\<lparr>status := ''stopped'',
                   stopReason := getProp stop ''reason'',
                   callSid := getProp stop ''call_sid'',
                   accountSid := getProp stop ''account_sid'',
                   endTime := Some now\<rparr>) st,
             [Send (JObj
               [(''event'', JStr ''stop''),
                (''sequence_number'', js_plus (getProp message ''sequence_number'') 1),
                (''stream_sid'', getProp message ''stream_sid''),
                (''stop'', JObj
                  [(''call_sid'', getProp stop ''call_sid''),
                   (''account_sid'', getProp stop ''account_sid''),
                   (''reason'', getProp stop ''reason'')])]),
              CloseAfter 1000 1000 ''Call ended'']))"

definition xfer_invalid :: "jsv \<Rightarrow> bool" where
  "xfer_invalid message =
     (let xfer = getProp message ''xfer''
      in \<not> truthy xfer \<or>
         \<not> truthy (getProp xfer ''call_sid'') \<or>
         \<not> truthy (getProp xfer ''account_sid'') \<or>
         \<not> truthy (getProp xfer ''reason''))"

definition handleXferEvent :: "string \<Rightarrow> jsv \<Rightarrow> int \<Rightarrow> server \<Rightarrow> server \<times> effect list" where
  "handleXferEvent sid message now st =
     (case callStorage st sid of
        None \<Rightarrow> (st, [])
      | Some cd \<Rightarrow>
          if xfer_invalid message
          then (st, [Send (error_envelope message sid ''Invalid xfer payload'')])
          else
            let xfer = getProp message ''xfer'' in
            (update_call sid
               (cd\<lparr>status := ''transferred'',
                   transferReason := getProp xfer ''reason'',
                   callSid := getProp xfer ''call_sid'',
                   accountSid := getProp xfer ''account_sid'',
                   endTime := Some now\<rparr>) st,
             [Send (JObj
               [(''event'', JStr ''xfer''),
                (''sequence_number'', js_plus (getProp message ''sequence_number'') 1),
                (''stream_sid'', getProp message ''stream_sid''),
                (''xfer'', JObj
                  [(''call_sid'', getProp xfer ''call_sid''),
                   (''account_sid'', getProp xfer ''account_sid''),
                   (''reason'', getProp xfer ''reason'')])]),
              CloseAfter 1000 1000 ''Call transferred'']))"

text \<open>
  The dispatcher. Reading \<^verbatim>\<open>message.event\<close> of \<^verbatim>\<open>null\<close> (the frame \<^verbatim>\<open>null\<close> is
  valid JSON) throws a \<^verbatim>\<open>TypeError\<close> before anything is stored or sent, with or without a
  record. Otherwise the event is appended to the log of the record first and dispatched on
  \<^verbatim>\<open>message.event\<close> by strict equality.
\<close>

definition log_entry :: "jsv \<Rightarrow> int \<Rightarrow> event_entry" where
  "log_entry message now =
     \<lparr>ev_event = getProp message ''event'',
      ev_sequence_number = getProp message ''sequence_number'',
      ev_stream_sid = getProp message ''stream_sid'',
      ev_timestamp = now,
      ev_payload = spread message\<rparr>"

definition handleWebSocketEvent ::
  "string \<Rightarrow> jsv \<Rightarrow> int \<Rightarrow> server \<Rightarrow> js_error + server \<times> effect list" where
  "handleWebSocketEvent sid message now st =
     (if message = JNull \<or> message = JUndef then Inl TypeError
      else case callStorage st sid of
        None \<Rightarrow> Inr (st, [Send (error_envelope message sid ''Call data not found'')])
      | Some cd \<Rightarrow>
          let st1 = update_call sid (cd\<lparr>events := events cd @ [log_entry message now]\<rparr>) st;
              event = getProp message ''event''
          in if event = JStr ''start'' then Inr (handleStartEvent sid message st1)
             else if event = JStr ''media'' then Inr (handleMediaEvent sid message now st1)
             else if event = JStr ''stop'' then Inr (handleStopEvent sid message now st1)
             else if event = JStr ''xfer'' then Inr (handleXferEvent sid message now st1)
             else Inr (st1, [Send (error_envelope message sid
                                    (''Unknown event type: '' @ js_toString event))]))"

section \<open>The listeners of an admitted socket\<close>

text \<open>
  \<^verbatim>\<open>ws.on("message")\<close>. The argument \<open>parsed\<close> is the outcome of
  \<^verbatim>\<open>JSON.parse(data.toString())\<close>: \<open>None\<close> when it throws its \<^verbatim>\<open>SyntaxError\<close>. The
  constant \<^verbatim>\<open>message\<close> is declared inside the \<^verbatim>\<open>try\<close> block, so it is not in scope in
  the \<^verbatim>\<open>catch\<close> block: evaluating \<^verbatim>\<open>message?.sequence_number\<close> there, for the argument
  of \<^verbatim>\<open>ws.send\<close>, throws a \<^verbatim>\<open>ReferenceError\<close> (optional chaining does not cover an
  undeclared name) before anything is sent, and the error leaves the listener.
\<close>

definition catch_block :: "server \<Rightarrow> js_error + server \<times> effect list" where
  "catch_block st = Inl ReferenceError"

definition ws_on_message ::
  "string \<Rightarrow> jsv option \<Rightarrow> int \<Rightarrow> server \<Rightarrow> js_error + server \<times> effect list" where
  "ws_on_message sid parsed now st =
     (case parsed of
        None \<Rightarrow> catch_block st
      | Some message \<Rightarrow>
          (case handleWebSocketEvent sid message now st of
             Inl e \<Rightarrow> catch_block st
           | Inr r \<Rightarrow> Inr r))"

text \<open>
  \<^verbatim>\<open>ws.on("close")\<close>: the registry entry of the call is deleted and the record, when
  there is one, is marked and timed, whatever its status was.
  \<^verbatim>\<open>Math.round((endTime - startTime) / 1000)\<close> rounds to the nearest integer, a half
  upwards; on a difference \<open>d\<close> of integer milliseconds that is \<open>(d + 500) div 1000\<close>.
\<close>

definition Math_round_div_1000 :: "int \<Rightarrow> int" where
  "Math_round_div_1000 d = (d + 500) div 1000"

definition ws_on_close :: "string \<Rightarrow> int \<Rightarrow> server \<Rightarrow> server" where
  "ws_on_close sid now st =
     (let st1 = st\<lparr>activeConnections := (activeConnections st)(sid := None)\<rparr>
      in case callStorage st1 sid of
           None \<Rightarrow> st1
         | Some cd \<Rightarrow>
             let cd1 = cd\<lparr>status := ''disconnected'', endTime := Some now\<rparr>
             in (case startTime cd1 of
                   None \<Rightarrow> update_call sid cd1 st1
                 | Some t0 \<Rightarrow>
                     update_call sid (cd1\<lparr>duration := Some (Math_round_div_1000 (now - t0))\<rparr>) st1))"

section \<open>Runs of one socket\<close>

text \<open>
  Node.js delivers the events of a socket one at a time. A run is the list of what the
  socket receives, each with the clock at its delivery; an error that leaves a listener
  ends the run.
\<close>

datatype ws_event = MessageEv "jsv option" int | CloseEv int

fun deliver :: "string \<Rightarrow> ws_event \<Rightarrow> server \<Rightarrow> js_error + server \<times> effect list" where
  "deliver sid (MessageEv parsed now) st = ws_on_message sid parsed now st"
| "deliver sid (CloseEv now) st = Inr (ws_on_close sid now st, [])"

fun run :: "string \<Rightarrow> ws_event list \<Rightarrow> server \<Rightarrow> js_error + server \<times> effect list" where
  "run sid [] st = Inr (st, [])"
| "run sid (e # es) st =
     (case deliver sid e st of
        Inl err \<Rightarrow> Inl err
      | Inr (st1, out1) \<Rightarrow>
          (case run sid es st1 of
             Inl err \<Rightarrow> Inl err
           | Inr (st2, out2) \<Rightarrow> Inr (st2, out1 @ out2)))"

text \<open>The status and the media format a call has in the store.\<close>

definition status_of :: "server \<Rightarrow> string \<Rightarrow> string option" where
  "status_of st sid = map_option status (callStorage st sid)"


section \<open>A sample call\<close>

text \<open>
  The scenario of the specification: the call \<^verbatim>\<open>C1\<close> from \<^verbatim>\<open>+1\<close> to \<^verbatim>\<open>+2\<close> is set up
  on an empty server at time 0 and its socket is admitted with the token issued; the
  carrier then sends a start, a media and a stop event.
\<close>

definition empty_server :: server where
  "empty_server = \<lparr>callStorage = Map.empty, activeConnections = Map.empty, tokenStorage = Map.empty\<rparr>"

definition sample_setup :: server where
  "sample_setup =
     fst (sampark ''localhost'' ''3000'' ''a1b2'' (Some ''C1'') (Some ''+1'') (Some ''+2'') 0
            empty_server)"

definition sample_bound :: server where
  "sample_bound = fst (connection 1 (Some ''C1'') (Some ''a1b2'') 10 sample_setup)"

definition sample_format :: jsv where
  "sample_format =
     JObj [(''encoding'', JStr ''pcmu''), (''sample_rate'', JNum 8000), (''bit_rate'', JNum 64000)]"

definition sample_start :: "int \<Rightarrow> jsv \<Rightarrow> jsv" where
  "sample_start s fmt =
     JObj [(''event'', JStr ''start''), (''sequence_number'', JNum s), (''stream_sid'', JStr ''S1''),
           (''start'', JObj [(''stream_sid'', JStr ''S1''), (''call_sid'', JStr ''C1''),
                             (''account_sid'', JStr ''A1''), (''from'', JStr ''+1''),
                             (''to'', JStr ''+2''), (''media_format'', fmt)])]"

definition sample_media :: "int \<Rightarrow> jsv \<Rightarrow> jsv \<Rightarrow> jsv" where
  "sample_media s c p =
     JObj [(''event'', JStr ''media''), (''sequence_number'', JNum s), (''stream_sid'', JStr ''S1''),
           (''media'', JObj [(''chunk'', c), (''payload'', p), (''timestamp'', JStr ''1'')])]"

definition sample_stop :: "int \<Rightarrow> jsv" where
  "sample_stop s =
     JObj [(''event'', JStr ''stop''), (''sequence_number'', JNum s), (''stream_sid'', JStr ''S1''),
           (''stop'', JObj [(''call_sid'', JStr ''C1''), (''account_sid'', JStr ''A1''),
                            (''reason'', JStr ''completed'')])]"


text \<open>The record of the sample call once its socket is admitted (at time 10).\<close>

definition sample_record :: callData where
  "sample_record =
     \<lparr>callSid = JStr ''C1'', from_addr = JStr ''+1'', to_addr = JStr ''+2'',
      startTime = Some 0, status = ''connected'', events = [], audioChunks = [],
      wsConnectedTime = Some 10, endTime = None, duration = None,
      mediaFormat = JUndef, accountSid = JUndef, stopReason = JUndef,
      transferReason = JUndef\<rparr>"

text \<open>What a run, or one listener, leaves: the status and the media format of a call in
  the final store (\<open>None\<close> when an error ended the run or the call has no record) and the
  effects on the socket.\<close>

definition result_status :: "js_error + server \<times> effect list \<Rightarrow> string \<Rightarrow> string option" where
  "result_status r sid = (case r of Inl e \<Rightarrow> None | Inr (st, out) \<Rightarrow> status_of st sid)"


definition result_effects :: "js_error + server \<times> effect list \<Rightarrow> effect list" where
  "result_effects r = (case r of Inl e \<Rightarrow> [] | Inr (st, out) \<Rightarrow> out)"



text \<open>The reply of a refused admission.\<close>

definition rejection :: "effect list" where
  "rejection = [Close 1008 ''Invalid callSid or token'']"

text \<open>
  The sample call is set up a second time while its socket is live (the setup call is
  repeated with the same \<^verbatim>\<open>CallSid\<close>), which issues a second token for it.
\<close>

definition sample_reissued :: server where
  "sample_reissued =
     fst (sampark ''localhost'' ''3000'' ''c3d4'' (Some ''C1'') (Some ''+1'') (Some ''+2'') 20
            sample_bound)"



section \<open>Basic facts\<close>

lemma sample_bound_record: "callStorage sample_bound ''C1'' = Some sample_record"
  by code_simp

lemma sample_bound_registry: "activeConnections sample_bound ''C1'' = Some 1"
  by code_simp





subsection \<open>A missing required field fails the validation of its kind\<close>





subsection \<open>The dispatcher on an event that fails validation\<close>





subsection \<open>Runs\<close>

lemma run_snoc:
  "run sid (es @ [e]) st =
     (case run sid es st of
        Inl err \<Rightarrow> Inl err
      | Inr (st1, out1) \<Rightarrow>
          (case deliver sid e st1 of
             Inl err \<Rightarrow> Inl err
           | Inr (st2, out2) \<Rightarrow> Inr (st2, out1 @ out2)))"
proof (induction es arbitrary: st)
  case Nil
  show ?case by (simp split: sum.splits prod.splits)
next
  case (Cons a es)
  show ?case by (simp add: Cons.IH split: sum.splits prod.splits)
qed

lemma ws_on_close_status:
  "callStorage st sid = Some cd \<Longrightarrow> status_of (ws_on_close sid now st) sid = Some ''disconnected''"
  by (simp add: ws_on_close_def status_of_def update_call_def Let_def split: option.splits)

section \<open>The final status of a stopped call\<close>

text \<open>
  Claim C1: after a start event, any number of media events and a stop event on a bound
  channel, the status of the session record is \<^verbatim>\<open>stopped\<close>, and it is still
  \<^verbatim>\<open>stopped\<close> once the close that follows the acknowledgement has completed.

  The code does not keep it. The stop handler writes \<^verbatim>\<open>stopped\<close> and schedules
  \<^verbatim>\<open>ws.close\<close>; the close listener then writes \<^verbatim>\<open>disconnected\<close> over whatever status
  the record has. The theorem evaluates the code: whatever a socket has received, once the
  close listener has run on a call with a record the status is \<^verbatim>\<open>disconnected\<close>.
\<close>

theorem close_overwrites_status:
  assumes "run sid es st = Inr (st1, out)"
    and "callStorage st1 sid = Some cd"
  shows "result_status (run sid (es @ [CloseEv now]) st) sid = Some ''disconnected''"
  using assms by (simp add: run_snoc result_status_def ws_on_close_status)

text \<open>The sample call: \<^verbatim>\<open>stopped\<close> after the stop event, \<^verbatim>\<open>disconnected\<close> after the
  close that the stop handler scheduled for one second later.\<close>

theorem close_overwrites_status_witness:
  "result_status
     (run ''C1'' [MessageEv (Some (sample_start 0 sample_format)) 20,
                  MessageEv (Some (sample_media 1 (JNum 1) (JStr ''QQ==''))) 30,
                  MessageEv (Some (sample_stop 2)) 40] sample_bound) ''C1'' = Some ''stopped''
   \<and> result_status
     (run ''C1'' ([MessageEv (Some (sample_start 0 sample_format)) 20,
                   MessageEv (Some (sample_media 1 (JNum 1) (JStr ''QQ==''))) 30,
                   MessageEv (Some (sample_stop 2)) 40] @ [CloseEv 1040]) sample_bound) ''C1''
       = Some ''disconnected''"
proof -
  let ?es = "[MessageEv (Some (sample_start 0 sample_format)) 20,
              MessageEv (Some (sample_media 1 (JNum 1) (JStr ''QQ==''))) 30,
              MessageEv (Some (sample_stop 2)) 40]"
  have stopped: "result_status (run ''C1'' ?es sample_bound) ''C1'' = Some ''stopped''"
    by code_simp
  then obtain st1 out cd where r: "run ''C1'' ?es sample_bound = Inr (st1, out)"
    and c: "callStorage st1 ''C1'' = Some cd"
    by (auto simp: result_status_def status_of_def split: sum.splits)
  from close_overwrites_status [OF r c, of 1040] stopped show ?thesis by simp
qed

section \<open>A frame that is not JSON\<close>

text \<open>
  Claim C5: for every frame that is not valid JSON arriving on a bound channel, exactly one
  error envelope is sent back (its sequence number the inbound one plus 1, or 0 if absent),
  and the status of the session record is unchanged.

  The code sends nothing. Its \<^verbatim>\<open>catch\<close> block builds the envelope from
  \<^verbatim>\<open>message?.sequence_number\<close>, but \<^verbatim>\<open>message\<close> is a constant of the \<^verbatim>\<open>try\<close> block:
  the read throws a \<^verbatim>\<open>ReferenceError\<close> before \<^verbatim>\<open>ws.send\<close> is called, and the error
  leaves the listener. The theorem evaluates the listener on a frame that
  \<^verbatim>\<open>JSON.parse\<close> refuses.
\<close>

theorem invalid_json_sends_nothing:
  "ws_on_message sid None now st = Inl ReferenceError
   \<and> result_effects (ws_on_message sid None now st) = []"
  by (simp add: ws_on_message_def catch_block_def result_effects_def)

theorem invalid_json_sends_nothing_witness:
  "ws_on_message ''C1'' None 20 sample_bound = Inl ReferenceError
   \<and> result_effects (ws_on_message ''C1'' None 20 sample_bound) = []"
  by (rule invalid_json_sends_nothing)

section \<open>Events that fail validation\<close>





section \<open>What an event does to the status and to the media format\<close>


















section \<open>The media format\<close>




section \<open>The sequence numbers of the replies\<close>

lemma Buffer_from_string: "\<not> Buffer_from_throws (JStr s)"
  by simp









section \<open>Admission: tokens and the registry\<close>

lemma connection_rejects:
  "tokenStorage st tok \<noteq> q \<or> \<not> present q \<Longrightarrow>
   connection ws q (Some tok) now st = (st, rejection)"
  by (auto simp: connection_def rejection_def)

lemma connection_admits:
  assumes "tokenStorage st tok = Some sid" and "sid \<noteq> []" and "tok \<noteq> []"
  shows "snd (connection ws (Some sid) (Some tok) now st) = []"
    and "activeConnections (fst (connection ws (Some sid) (Some tok) now st)) sid = Some ws"
    and "tokenStorage (fst (connection ws (Some sid) (Some tok) now st)) tok = None"
  using assms by (simp_all add: connection_def present_def Let_def split: option.splits)

lemma connection_admitted:
  "connection ws q t now st = (st1, []) \<Longrightarrow>
   present q \<and> present t \<and> tokenStorage st (the t) = q \<and> tokenStorage st1 (the t) = None"
  by (auto simp: connection_def Let_def split: if_splits option.splits)

lemma tokens_update [simp]: "tokenStorage (update_call sid cd st) = tokenStorage st"
  by (simp add: update_call_def)

lemma tokens_start [simp]: "tokenStorage (fst (handleStartEvent sid message st)) = tokenStorage st"
  by (simp add: handleStartEvent_def Let_def split: option.splits)

lemma tokens_media [simp]:
  "tokenStorage (fst (handleMediaEvent sid message now st)) = tokenStorage st"
  by (simp add: handleMediaEvent_def Let_def split: option.splits)

lemma tokens_stop [simp]: "tokenStorage (fst (handleStopEvent sid message now st)) = tokenStorage st"
  by (simp add: handleStopEvent_def Let_def split: option.splits)

lemma tokens_xfer [simp]: "tokenStorage (fst (handleXferEvent sid message now st)) = tokenStorage st"
  by (simp add: handleXferEvent_def Let_def split: option.splits)

lemma tokens_event:
  "handleWebSocketEvent sid message now st = Inr r \<Longrightarrow> tokenStorage (fst r) = tokenStorage st"
  unfolding handleWebSocketEvent_def Let_def
  by (cases "callStorage st sid") (auto split: if_splits)

lemma tokens_message:
  "ws_on_message sid parsed now st = Inr (st', out) \<Longrightarrow> tokenStorage st' = tokenStorage st"
  unfolding ws_on_message_def catch_block_def
  by (auto split: option.splits sum.splits dest: tokens_event)

lemma tokens_close: "tokenStorage (ws_on_close sid now st) = tokenStorage st"
  by (simp add: ws_on_close_def Let_def split: option.splits)

lemma tokens_deliver:
  "deliver sid e st = Inr (st', out) \<Longrightarrow> tokenStorage st' = tokenStorage st"
  by (cases e) (auto simp: tokens_close dest: tokens_message)

lemma tokens_run:
  "run sid es st = Inr (st', out) \<Longrightarrow> tokenStorage st' = tokenStorage st"
proof (induction es arbitrary: st out)
  case Nil
  then show ?case by simp
next
  case (Cons e es)
  then show ?case
    by (auto split: sum.splits prod.splits dest!: tokens_deliver)
qed

text \<open>
  Claim C8: an admission token admits exactly one connection. After a connection has been
  admitted with a token, every later attempt that presents the same token is rejected
  (at once, and after any events the admitted sockets receive), and an attempt that
  presents the token with a session id other than the one it was issued for is rejected.
  A rejected attempt changes nothing.
\<close>

theorem token_single_use:
  assumes first: "connection ws (Some sid) (Some tok) now st = (st1, [])"
  shows "(\<forall>ws' q now'. connection ws' q (Some tok) now' st1 = (st1, rejection))
       \<and> (\<forall>sid' es st2 out ws' q now'. run sid' es st1 = Inr (st2, out) \<longrightarrow>
            connection ws' q (Some tok) now' st2 = (st2, rejection))
       \<and> (\<forall>ws' q now'. q \<noteq> Some sid \<longrightarrow> connection ws' q (Some tok) now' st = (st, rejection))"
proof -
  from connection_admitted [OF first]
  have gone: "tokenStorage st1 tok = None" and bound: "tokenStorage st tok = Some sid"
    by simp_all
  have a: "\<forall>ws' q now'. connection ws' q (Some tok) now' st1 = (st1, rejection)"
  proof (intro allI)
    fix ws' q now'
    show "connection ws' q (Some tok) now' st1 = (st1, rejection)"
      using gone by (cases q) (simp_all add: connection_rejects present_def)
  qed
  have b: "\<forall>sid' es st2 out ws' q now'. run sid' es st1 = Inr (st2, out) \<longrightarrow>
            connection ws' q (Some tok) now' st2 = (st2, rejection)"
  proof (intro allI impI)
    fix sid' es st2 out ws' q now'
    assume "run sid' es st1 = Inr (st2, out)"
    then have "tokenStorage st2 tok = None" using gone by (simp add: tokens_run)
    then show "connection ws' q (Some tok) now' st2 = (st2, rejection)"
      by (cases q) (simp_all add: connection_rejects present_def)
  qed
  have c: "\<forall>ws' q now'. q \<noteq> Some sid \<longrightarrow> connection ws' q (Some tok) now' st = (st, rejection)"
    using bound by (auto simp: connection_rejects)
  from a b c show ?thesis by blast
qed

text \<open>The sample call: its token admitted socket 1; the same token is refused for socket
  2, at once and after a start event, and it is refused with another call id.\<close>

theorem token_single_use_witness:
  "connection 1 (Some ''C1'') (Some ''a1b2'') 10 sample_setup = (sample_bound, [])
   \<and> connection 2 (Some ''C1'') (Some ''a1b2'') 20 sample_bound = (sample_bound, rejection)
   \<and> (case run ''C1'' [MessageEv (Some (sample_start 0 sample_format)) 20] sample_bound of
         Inl e \<Rightarrow> False
       | Inr (st2, out) \<Rightarrow> connection 2 (Some ''C1'') (Some ''a1b2'') 30 st2 = (st2, rejection))
   \<and> connection 2 (Some ''C2'') (Some ''a1b2'') 5 sample_setup = (sample_setup, rejection)"
proof -
  have "snd (connection 1 (Some ''C1'') (Some ''a1b2'') 10 sample_setup) = []"
    by code_simp
  then have first:
    "connection 1 (Some ''C1'') (Some ''a1b2'') 10 sample_setup = (sample_bound, [])"
    by (simp add: sample_bound_def prod_eq_iff)
  have "\<exists>st2 out. run ''C1'' [MessageEv (Some (sample_start 0 sample_format)) 20]
      sample_bound = Inr (st2, out)"
    using sample_bound_record
    by (simp add: ws_on_message_def handleWebSocketEvent_def sample_start_def
        split: sum.splits prod.splits)
  then obtain st2 out
    where runs: "run ''C1'' [MessageEv (Some (sample_start 0 sample_format)) 20] sample_bound
      = Inr (st2, out)"
    by blast
  note t = token_single_use [OF first]
  from t have a:
    "connection 2 (Some ''C1'') (Some ''a1b2'') 20 sample_bound = (sample_bound, rejection)"
    by simp
  from t runs have "connection 2 (Some ''C1'') (Some ''a1b2'') 30 st2 = (st2, rejection)"
    by blast
  with runs have b:
    "case run ''C1'' [MessageEv (Some (sample_start 0 sample_format)) 20] sample_bound of
       Inl e \<Rightarrow> False
     | Inr (st2, out) \<Rightarrow> connection 2 (Some ''C1'') (Some ''a1b2'') 30 st2 = (st2, rejection)"
    by (simp only: sum.case prod.case)
  from t have c:
    "connection 2 (Some ''C2'') (Some ''a1b2'') 5 sample_setup = (sample_setup, rejection)"
    by simp
  from first a b c show ?thesis by (intro conjI)
qed

text \<open>
  Claim C4, as amended: the admission does not consult the registry. A second connection
  attempt for a session id that has a live channel is rejected, leaving the stores
  unchanged, when its token is not stored for that session id (the token the first
  connection consumed, for one); an attempt that presents a token stored for the session
  id is admitted, and its channel replaces the entry of the registry.
\<close>

theorem second_connection:
  assumes live: "activeConnections st sid = Some ws1"
  shows "(tokenStorage st tok \<noteq> Some sid \<longrightarrow>
            connection ws2 (Some sid) (Some tok) now st = (st, rejection))
       \<and> (tokenStorage st tok = Some sid \<and> sid \<noteq> [] \<and> tok \<noteq> [] \<longrightarrow>
            snd (connection ws2 (Some sid) (Some tok) now st) = []
            \<and> activeConnections (fst (connection ws2 (Some sid) (Some tok) now st)) sid
                = Some ws2)"
  by (simp add: connection_rejects connection_admits)

text \<open>Socket 2 on the sample call, whose registry entry is socket 1: refused with the
  consumed token, admitted with the token of the repeated setup.\<close>

theorem second_connection_witness:
  "activeConnections sample_bound ''C1'' = Some 1
   \<and> connection 2 (Some ''C1'') (Some ''a1b2'') 30 sample_bound = (sample_bound, rejection)
   \<and> activeConnections sample_reissued ''C1'' = Some 1
   \<and> snd (connection 2 (Some ''C1'') (Some ''c3d4'') 30 sample_reissued) = []
   \<and> activeConnections (fst (connection 2 (Some ''C1'') (Some ''c3d4'') 30 sample_reissued)) ''C1''
       = Some 2"
proof -
  have live1: "activeConnections sample_bound ''C1'' = Some 1" by (rule sample_bound_registry)
  have live2: "activeConnections sample_reissued ''C1'' = Some 1" by code_simp
  have consumed: "tokenStorage sample_bound ''a1b2'' \<noteq> Some ''C1''" by code_simp
  have issued: "tokenStorage sample_reissued ''c3d4'' = Some ''C1''" by code_simp
  have nonempty: "''C1'' \<noteq> []" "''c3d4'' \<noteq> []" by simp_all
  from second_connection [OF live1, of "''a1b2''" 2 30] consumed
  have a: "connection 2 (Some ''C1'') (Some ''a1b2'') 30 sample_bound = (sample_bound, rejection)"
    by blast
  from second_connection [OF live2, of "''c3d4''" 2 30] issued nonempty
  have b: "snd (connection 2 (Some ''C1'') (Some ''c3d4'') 30 sample_reissued) = []
     \<and> activeConnections (fst (connection 2 (Some ''C1'') (Some ''c3d4'') 30 sample_reissued)) ''C1''
       = Some 2"
    by blast
  from live1 a live2 b show ?thesis by (intro conjI) simp_all
qed

text \<open>
  Claim C4 as stated fails: socket 1 is the live channel of the sample call, the setup call
  is repeated for the same call id, and socket 2 is admitted with the new token and takes
  the registry entry.
\<close>

theorem second_connection_admitted:
  "activeConnections sample_reissued ''C1'' = Some 1
   \<and> snd (connection 2 (Some ''C1'') (Some ''c3d4'') 30 sample_reissued) = []
   \<and> activeConnections (fst (connection 2 (Some ''C1'') (Some ''c3d4'') 30 sample_reissued)) ''C1''
       = Some 2"
  by code_simp

section \<open>The duration\<close>

lemma Math_round_real: "Math_round_div_1000 d = \<lfloor>real_of_int d / 1000 + 1 / 2\<rfloor>"
proof -
  have "real_of_int d / 1000 + 1 / 2 = real_of_int (d + 500) / real_of_int 1000"
    by (simp add: field_simps)
  then show ?thesis
    unfolding Math_round_div_1000_def by (simp only: floor_divide_of_int_eq)
qed

lemma floor_div_1000: "\<lfloor>real_of_int d / 1000\<rfloor> = d div 1000"
  using floor_divide_of_int_eq [of d 1000, where ?'a = real] by simp

lemma div_1000_shift: "((d::int) + 500) div 1000 = d div 1000 + (d mod 1000 + 500) div 1000"
  using div_add1_eq [of d 500 1000] by simp

lemma low_half: "(r::int) < 500 \<Longrightarrow> 0 \<le> r \<Longrightarrow> (r + 500) div 1000 = 0"
  by (rule div_pos_pos_trivial) simp_all

lemma high_half: "\<not> (r::int) < 500 \<Longrightarrow> 1 \<le> (r + 500) div 1000"
  using pos_imp_zdiv_pos_iff [of 1000 "r + 500"] by simp

lemma round_eq_floor_iff: "((d::int) + 500) div 1000 = d div 1000 \<longleftrightarrow> d mod 1000 < 500"
proof (cases "d mod 1000 < 500")
  case True
  have "0 \<le> d mod 1000" by simp
  with True have "(d mod 1000 + 500) div 1000 = 0" by (rule low_half)
  with True show ?thesis using div_1000_shift [of d] by linarith
next
  case False
  then have "1 \<le> (d mod 1000 + 500) div 1000" by (rule high_half)
  with False show ?thesis using div_1000_shift [of d] by linarith
qed

lemma ws_on_close_record:
  assumes "callStorage st sid = Some cd" and "startTime cd = Some t0"
  shows "callStorage (ws_on_close sid now st) sid =
           Some (cd\<lparr>status := ''disconnected'', endTime := Some now,
                    duration := Some (Math_round_div_1000 (now - t0))\<rparr>)"
  using assms by (simp add: ws_on_close_def update_call_def Let_def)

text \<open>
  Claim C6, as amended: when the channel of a call closes, the session record, whose start
  time is set, gets the time of the close as its end time and, as its duration, the
  difference end time minus start time in seconds rounded to the nearest whole second, a
  half upwards (\<^verbatim>\<open>Math.round\<close>); this is the floor of the difference exactly when its
  milliseconds beyond the whole second are fewer than 500.
\<close>

theorem duration_rounded:
  assumes rec: "callStorage st sid = Some cd"
    and start: "startTime cd = Some t0"
  shows "\<exists>cd'. callStorage (ws_on_close sid now st) sid = Some cd'
           \<and> startTime cd' = Some t0 \<and> endTime cd' = Some now
           \<and> duration cd' = Some \<lfloor>real_of_int (now - t0) / 1000 + 1 / 2\<rfloor>
           \<and> (duration cd' = Some \<lfloor>real_of_int (now - t0) / 1000\<rfloor>
                \<longleftrightarrow> (now - t0) mod 1000 < 500)"
proof -
  let ?cd' = "cd\<lparr>status := ''disconnected'', endTime := Some now,
                  duration := Some (Math_round_div_1000 (now - t0))\<rparr>"
  have r: "callStorage (ws_on_close sid now st) sid = Some ?cd'"
    using rec start by (rule ws_on_close_record)
  have d: "duration ?cd' = Some \<lfloor>real_of_int (now - t0) / 1000 + 1 / 2\<rfloor>"
    by (simp add: Math_round_real)
  have f: "duration ?cd' = Some \<lfloor>real_of_int (now - t0) / 1000\<rfloor>
             \<longleftrightarrow> (now - t0) mod 1000 < 500"
    unfolding floor_div_1000
    using round_eq_floor_iff [of "now - t0"]
    by (simp add: Math_round_div_1000_def)
  have t: "startTime ?cd' = Some t0" "endTime ?cd' = Some now"
    using start by simp_all
  from r d f t show ?thesis by blast
qed

text \<open>The sample call, set up at time 0, closed after 1500 and after 1400 milliseconds.\<close>

theorem duration_rounded_witness:
  "(\<exists>cd'. callStorage (ws_on_close ''C1'' 1500 sample_bound) ''C1'' = Some cd'
      \<and> startTime cd' = Some 0 \<and> endTime cd' = Some 1500 \<and> duration cd' = Some 2
      \<and> duration cd' \<noteq> Some 1)
   \<and> (\<exists>cd'. callStorage (ws_on_close ''C1'' 1400 sample_bound) ''C1'' = Some cd'
      \<and> startTime cd' = Some 0 \<and> endTime cd' = Some 1400 \<and> duration cd' = Some 1)"
proof -
  have start: "startTime sample_record = Some 0" by (simp add: sample_record_def)
  have a: "\<lfloor>real_of_int (1500 - 0) / 1000 + 1 / 2\<rfloor> = 2" by simp
  have b: "\<lfloor>real_of_int (1400 - 0) / 1000 + 1 / 2\<rfloor> = 1"
    using Math_round_real [of 1400] by (simp add: Math_round_div_1000_def)
  from duration_rounded [OF sample_bound_record start, of 1500]
  obtain cd1 where c1: "callStorage (ws_on_close ''C1'' 1500 sample_bound) ''C1'' = Some cd1"
    "startTime cd1 = Some 0" "endTime cd1 = Some 1500"
    "duration cd1 = Some \<lfloor>real_of_int (1500 - 0) / 1000 + 1 / 2\<rfloor>"
    by blast
  from duration_rounded [OF sample_bound_record start, of 1400]
  obtain cd2 where c2: "callStorage (ws_on_close ''C1'' 1400 sample_bound) ''C1'' = Some cd2"
    "startTime cd2 = Some 0" "endTime cd2 = Some 1400"
    "duration cd2 = Some \<lfloor>real_of_int (1400 - 0) / 1000 + 1 / 2\<rfloor>"
    by blast
  from c1(4) a have d1: "duration cd1 = Some 2" by (simp only:)
  from c2(4) b have d2: "duration cd2 = Some 1" by (simp only:)
  from d1 have n1: "duration cd1 \<noteq> Some 1" by simp
  have left: "\<exists>cd'. callStorage (ws_on_close ''C1'' 1500 sample_bound) ''C1'' = Some cd'
      \<and> startTime cd' = Some 0 \<and> endTime cd' = Some 1500 \<and> duration cd' = Some 2
      \<and> duration cd' \<noteq> Some 1"
    using c1(1,2,3) d1 n1 by blast
  have right: "\<exists>cd'. callStorage (ws_on_close ''C1'' 1400 sample_bound) ''C1'' = Some cd'
      \<and> startTime cd' = Some 0 \<and> endTime cd' = Some 1400 \<and> duration cd' = Some 1"
    using c2(1,2,3) d2 by blast
  from left right show ?thesis by (rule conjI)
qed

text \<open>
  Claim C6 as stated fails: the sample call starts at 0 and its channel closes at 1500
  milliseconds; both timestamps are set, the recorded duration is 2, and the floor of 1.5
  seconds is 1.
\<close>

theorem duration_not_floor:
  "map_option startTime (callStorage (ws_on_close ''C1'' 1500 sample_bound) ''C1'') = Some (Some 0)
   \<and> map_option endTime (callStorage (ws_on_close ''C1'' 1500 sample_bound) ''C1'')
       = Some (Some 1500)
   \<and> map_option duration (callStorage (ws_on_close ''C1'' 1500 sample_bound) ''C1'')
       = Some (Some 2)
   \<and> \<lfloor>real_of_int (1500 - 0) / 1000\<rfloor> = 1"
proof -
  have "callStorage (ws_on_close ''C1'' 1500 sample_bound) ''C1'' =
          Some (sample_record\<lparr>status := ''disconnected'', endTime := Some 1500,
                  duration := Some 2\<rparr>)"
    by code_simp
  moreover have "\<lfloor>real_of_int (1500 - 0) / 1000\<rfloor> = 1"
    using floor_div_1000 [of 1500] by simp
  ultimately show ?thesis by (simp add: sample_record_def)
qed

end
